theory Spec2Isabelle
  imports Main "HOL-Library.Word" "HOL-Library.Sublist"
begin

section \<open>The API client of Diray Centre (\<^verbatim>\<open>src/diray/api_client.py\<close>)\<close>

text \<open>
  A shallow embedding of \<^verbatim>\<open>SystemeCalculClient\<close>. Python exceptions are the left
  summand of a sum type, the process-wide cache, the HTTP calls issued and the log records
  are fields of an explicit \<open>world\<close> that every method takes and returns, and the remote
  server is a function from the clock reading and the request to what
  \<^verbatim>\<open>requests.request\<close> does with it.
\<close>

subsection \<open>Python values\<close>

text \<open>
  What \<^verbatim>\<open>response.json()\<close> can return, and what the methods build and return: any JSON
  value, not only an object. A dict is the list of its items in insertion order (its keys
  are distinct). A float is kept as its IEEE 754 bit pattern; \<^verbatim>\<open>None\<close> is \<open>JNull\<close>.
\<close>

datatype jvalue =
    JNull
  | JBool bool
  | JInt int
  | JFloat "64 word"
  | JStr string
  | JList "jvalue list"
  | JObj "(string \<times> jvalue) list"

text \<open>Python's truth value (\<^verbatim>\<open>if x:\<close>): \<^verbatim>\<open>None\<close>, \<^verbatim>\<open>False\<close>, zero (for a float
  both \<^verbatim>\<open>0.0\<close> and \<^verbatim>\<open>-0.0\<close>) and the empty string, list and dict are false.\<close>

fun truthy :: "jvalue \<Rightarrow> bool" where
  "truthy JNull = False"
| "truthy (JBool b) = b"
| "truthy (JInt i) = (i \<noteq> 0)"
| "truthy (JFloat w) = (w \<noteq> 0 \<and> w \<noteq> 2 ^ 63)"
| "truthy (JStr s) = (s \<noteq> [])"
| "truthy (JList xs) = (xs \<noteq> [])"
| "truthy (JObj kvs) = (kvs \<noteq> [])"

text \<open>\<^verbatim>\<open>d.get(key, default)\<close> on a dict; \<^verbatim>\<open>d.get(key)\<close> is \<open>dict_get d key JNull\<close>.\<close>

definition dict_get :: "(string \<times> jvalue) list \<Rightarrow> string \<Rightarrow> jvalue \<Rightarrow> jvalue" where
  "dict_get d key dflt = (case map_of d key of Some v \<Rightarrow> v | None \<Rightarrow> dflt)"

text \<open>\<^verbatim>\<open>str(n)\<close> of an integer, as the f-strings that build a message or a path use it.\<close>

definition digit :: "nat \<Rightarrow> char" where
  "digit d = ''0123456789'' ! d"

function str_nat :: "nat \<Rightarrow> string" where
  "str_nat n = (if n < 10 then [digit n] else str_nat (n div 10) @ [digit (n mod 10)])"
  by pat_completeness auto
termination
  by (relation "measure (\<lambda>n. n)") auto

declare str_nat.simps [simp del]

definition str_int :: "int \<Rightarrow> string" where
  "str_int i = (if i < 0 then CHR ''-'' # str_nat (nat (- i)) else str_nat (nat i))"

text \<open>\<^verbatim>\<open>s.lstrip(chars)\<close> and \<^verbatim>\<open>s.rstrip(chars)\<close>: every leading (trailing) character
  that occurs in \<open>chars\<close> is removed.\<close>

definition lstrip :: "string \<Rightarrow> string \<Rightarrow> string" where
  "lstrip s chars = dropWhile (\<lambda>c. c \<in> set chars) s"

definition rstrip :: "string \<Rightarrow> string \<Rightarrow> string" where
  "rstrip s chars = rev (dropWhile (\<lambda>c. c \<in> set chars) (rev s))"

text \<open>\<^verbatim>\<open>s.upper()\<close> on ASCII text (the methods pass the literals \<^verbatim>\<open>'GET'\<close> and
  \<^verbatim>\<open>'POST'\<close>).\<close>

definition upper_char :: "char \<Rightarrow> char" where
  "upper_char c =
     (case map_of (zip ''abcdefghijklmnopqrstuvwxyz'' ''ABCDEFGHIJKLMNOPQRSTUVWXYZ'') c of
        Some u \<Rightarrow> u
      | None \<Rightarrow> c)"

definition upper :: "string \<Rightarrow> string" where
  "upper s = map upper_char s"

subsection \<open>Exceptions\<close>

text \<open>
  \<^verbatim>\<open>SystemeCalculAPIError(message, status_code, response_data)\<close> is the error the client
  raises itself; the message is whatever the caller passes, a \<^verbatim>\<open>str\<close> or the value
  found under \<^verbatim>\<open>'error'\<close> in a response. \<open>AttributeError\<close> is what Python raises for
  \<^verbatim>\<open>x.get(...)\<close> when \<open>x\<close> is not a dict.
\<close>

datatype exn =
    SystemeCalculAPIError jvalue "int option" "jvalue option"
  | AttributeError

subsection \<open>The collaborators: HTTP transport, cache, logger\<close>

record request =
  http_method :: string
  url :: string
  json :: "jvalue option"
  headers :: "(string \<times> string) list"
  params :: "jvalue option"
  timeout :: int

text \<open>
  A \<^verbatim>\<open>requests.Response\<close>: \<open>resp_text\<close> is \<^verbatim>\<open>response.text\<close>, \<open>json_result\<close> is
  what \<^verbatim>\<open>response.json()\<close> returns, \<open>None\<close> when it raises \<^verbatim>\<open>ValueError\<close> (the body
  is not JSON). \<^verbatim>\<open>response.ok\<close> is false exactly when \<^verbatim>\<open>raise_for_status()\<close> would
  raise, that is for a status from 400 to 599.
\<close>

record response =
  status_code :: int
  resp_text :: string
  json_result :: "jvalue option"

definition ok :: "response \<Rightarrow> bool" where
  "ok r = (\<not> (400 \<le> status_code r \<and> status_code r < 600))"

text \<open>What \<^verbatim>\<open>requests.request(...)\<close> does: it returns a response or raises one of the
  \<^verbatim>\<open>requests.exceptions\<close>; \<open>Raises_RequestException\<close> carries \<^verbatim>\<open>str(e)\<close>.\<close>

datatype outcome =
    Raises_Timeout
  | Raises_ConnectionError
  | Raises_RequestException string
  | Returns response

text \<open>The remote side: what a request sent at a clock reading (in seconds) meets.\<close>

type_synonym network = "int \<Rightarrow> request \<Rightarrow> outcome"

text \<open>A log record: its level and the pieces of the f-string, \<open>Lit\<close> for literal text
  and \<open>Fmt v\<close> for a replacement field, which prints \<^verbatim>\<open>str(v)\<close>.\<close>

datatype fpart = Lit string | Fmt jvalue

datatype level = WARNING | ERROR

text \<open>
  The state outside the client: the cache of \<^verbatim>\<open>django.core.cache\<close> (each entry with
  the clock reading at which it expires), the requests handed to \<^verbatim>\<open>requests.request\<close>
  so far, oldest first, and the records written to the logger.
\<close>

record world =
  cache :: "string \<rightharpoonup> (jvalue \<times> int)"
  calls :: "request list"
  logs :: "(level \<times> fpart list) list"

text \<open>\<^verbatim>\<open>cache.get(key)\<close> at clock reading \<open>now\<close>: the stored value while the entry has
  not expired, \<^verbatim>\<open>None\<close> otherwise. \<^verbatim>\<open>cache.set(key, value, timeout)\<close> stores the value
  with the expiry \<open>now + timeout\<close>.\<close>

definition cache_get :: "(string \<rightharpoonup> (jvalue \<times> int)) \<Rightarrow> int \<Rightarrow> string \<Rightarrow> jvalue" where
  "cache_get c now key =
     (case c key of
        None \<Rightarrow> JNull
      | Some (v, expires) \<Rightarrow> if now < expires then v else JNull)"

definition cache_set ::
  "(string \<rightharpoonup> (jvalue \<times> int)) \<Rightarrow> int \<Rightarrow> string \<Rightarrow> jvalue \<Rightarrow> int \<Rightarrow> (string \<rightharpoonup> (jvalue \<times> int))" where
  "cache_set c now key v ttl = c(key \<mapsto> (v, now + ttl))"

definition logger_error :: "fpart list \<Rightarrow> world \<Rightarrow> world" where
  "logger_error msg w = w\<lparr>logs := logs w @ [(ERROR, msg)]\<rparr>"

subsection \<open>The client\<close>

text \<open>The attributes \<^verbatim>\<open>__init__\<close> reads from the settings; an absent setting is
  \<open>None\<close>. \<^verbatim>\<open>not self.base_url\<close> holds for \<^verbatim>\<open>None\<close> and for the empty string.\<close>

record client =
  base_url :: "string option"
  api_key :: "string option"
  client_timeout :: int

fun configured :: "string option \<Rightarrow> bool" where
  "configured None = False"
| "configured (Some s) = (s \<noteq> [])"

text \<open>
  \<^verbatim>\<open>_make_request\<close>, lines 60 to 129. \<open>build_request\<close> is lines 87 to 105: the URL,
  the headers and the arguments handed to \<^verbatim>\<open>requests.request\<close> (it is only reached with
  a base URL). \<open>parsed_body\<close> is lines 108 to 111: the JSON value of the body, or the
  dict \<^verbatim>\<open>{'raw': response.text}\<close> when the body is not JSON.
\<close>

definition build_request ::
  "client \<Rightarrow> string \<Rightarrow> string \<Rightarrow> jvalue option \<Rightarrow> string option \<Rightarrow> jvalue option \<Rightarrow> request" where
  "build_request self meth endpoint data token prms =
     \<lparr>http_method = upper meth,
      url = rstrip (the (base_url self)) ''/'' @ ''/'' @ lstrip endpoint ''/'',
      json = data,
      headers = [(''Content-Type'', ''application/json''), (''Accept'', ''application/json'')]
                @ (if configured token then [(''Authorization'', ''Bearer '' @ the token)] else []),
      params = prms,
      timeout = client_timeout self\<rparr>"

definition parsed_body :: "response \<Rightarrow> jvalue" where
  "parsed_body resp =
     (case json_result resp of
        Some j \<Rightarrow> j
      | None \<Rightarrow> JObj [(''raw'', JStr (resp_text resp))])"

text \<open>The result of \<open>make_request\<close> is the exception raised or the value returned, with
  the world after the call.\<close>

definition make_request ::
  "client \<Rightarrow> network \<Rightarrow> int \<Rightarrow> world \<Rightarrow> string \<Rightarrow> string \<Rightarrow> jvalue option \<Rightarrow> string option
     \<Rightarrow> jvalue option \<Rightarrow> (exn + jvalue) \<times> world" where
  "make_request self net now w meth endpoint data token prms =
     (if \<not> configured (base_url self)
      then (Inl (SystemeCalculAPIError (JStr ''API URL not configured'') None None), w)
      else
        let req = build_request self meth endpoint data token prms;
            w' = w\<lparr>calls := calls w @ [req]\<rparr>
        in case net now req of
             Raises_Timeout \<Rightarrow>
               (Inl (SystemeCalculAPIError
                       (JStr ''Request timeout - API server not responding'') None None), w')
           | Raises_ConnectionError \<Rightarrow>
               (Inl (SystemeCalculAPIError
                       (JStr ''Connection error - Cannot reach API server'') None None), w')
           | Raises_RequestException e \<Rightarrow>
               (Inl (SystemeCalculAPIError (JStr (''Request failed: '' @ e)) None None), w')
           | Returns resp \<Rightarrow>
               let response_data = parsed_body resp
               in if \<not> ok resp
                  then (case response_data of
                          JObj d \<Rightarrow>
                            (Inl (SystemeCalculAPIError
                                    (dict_get d ''error''
                                       (JStr (''HTTP '' @ str_int (status_code resp))))
                                    (Some (status_code resp)) (Some response_data)), w')
                        | _ \<Rightarrow> (Inl AttributeError, w'))
                  else (Inr response_data, w'))"

text \<open>\<^verbatim>\<open>authenticate_student\<close>, lines 131 to 175; \<open>login_data\<close> is the request body
  of lines 156 to 160 (built only when the API key is there).\<close>

definition login_data :: "client \<Rightarrow> string \<Rightarrow> string \<Rightarrow> jvalue" where
  "login_data self email password =
     JObj [(''email'', JStr email), (''password'', JStr password),
           (''app_key'', JStr (the (api_key self)))]"

definition authenticate_student ::
  "client \<Rightarrow> network \<Rightarrow> int \<Rightarrow> world \<Rightarrow> string \<Rightarrow> string \<Rightarrow> (exn + jvalue) \<times> world" where
  "authenticate_student self net now w email password =
     (if \<not> configured (api_key self)
      then (Inr (JObj [(''success'', JBool False), (''error'', JStr ''API key not configured'')]), w)
      else
        case make_request self net now w ''POST'' ''/auth/external-login''
               (Some (login_data self email password)) None None of
          (Inr (JObj d), w') \<Rightarrow>
            (Inr (JObj [(''success'', JBool True),
                        (''student'', dict_get d ''student'' JNull),
                        (''token'', dict_get d ''token'' JNull),
                        (''expires_in'', dict_get d ''expiresIn'' (JStr ''24h''))]), w')
        | (Inr _, w') \<Rightarrow> (Inl AttributeError, w')
        | (Inl (SystemeCalculAPIError m sc rd), w') \<Rightarrow>
            (Inr (JObj [(''success'', JBool False), (''error'', m)]),
             logger_error [Lit ''Authentication failed for '', Fmt (JStr email), Lit '': '', Fmt m] w')
        | (Inl AttributeError, w') \<Rightarrow> (Inl AttributeError, w'))"

text \<open>\<^verbatim>\<open>get_student_profile\<close>, lines 177 to 210. \<^verbatim>\<open>token[:20]\<close> is \<open>take 20 token\<close>.\<close>

definition cache_key :: "string \<Rightarrow> string" where
  "cache_key token = ''student_profile_'' @ take 20 token"

definition get_student_profile ::
  "client \<Rightarrow> network \<Rightarrow> int \<Rightarrow> world \<Rightarrow> string \<Rightarrow> (exn + jvalue) \<times> world" where
  "get_student_profile self net now w token =
     (let cached_data = cache_get (cache w) now (cache_key token)
      in if truthy cached_data then (Inr cached_data, w)
         else
           case make_request self net now w ''GET'' ''/students/me/profile'' None (Some token) None of
             (Inr resp, w') \<Rightarrow>
               (Inr resp, w'\<lparr>cache := cache_set (cache w') now (cache_key token) resp 300\<rparr>)
           | (Inl (SystemeCalculAPIError m sc rd), w') \<Rightarrow>
               (Inr (JObj [(''success'', JBool False), (''error'', m)]),
                logger_error [Lit ''Failed to get student profile: '', Fmt m] w')
           | (Inl AttributeError, w') \<Rightarrow> (Inl AttributeError, w'))"

text \<open>\<^verbatim>\<open>get_student_formations\<close> and \<^verbatim>\<open>get_student_schedule\<close>, lines 212 to 254.\<close>

definition get_student_formations ::
  "client \<Rightarrow> network \<Rightarrow> int \<Rightarrow> world \<Rightarrow> int \<Rightarrow> string \<Rightarrow> (exn + jvalue) \<times> world" where
  "get_student_formations self net now w student_id token =
     (case make_request self net now w ''GET''
             (''/students/'' @ str_int student_id @ ''/formations'') None (Some token) None of
        (Inr resp, w') \<Rightarrow> (Inr resp, w')
      | (Inl (SystemeCalculAPIError m sc rd), w') \<Rightarrow>
          (Inr (JObj [(''success'', JBool False), (''error'', m), (''formations'', JList [])]),
           logger_error [Lit ''Failed to get formations for student '', Fmt (JInt student_id),
                         Lit '': '', Fmt m] w')
      | (Inl AttributeError, w') \<Rightarrow> (Inl AttributeError, w'))"

definition get_student_schedule ::
  "client \<Rightarrow> network \<Rightarrow> int \<Rightarrow> world \<Rightarrow> int \<Rightarrow> string \<Rightarrow> (exn + jvalue) \<times> world" where
  "get_student_schedule self net now w student_id token =
     (case make_request self net now w ''GET''
             (''/students/'' @ str_int student_id @ ''/schedule'') None (Some token) None of
        (Inr resp, w') \<Rightarrow> (Inr resp, w')
      | (Inl (SystemeCalculAPIError m sc rd), w') \<Rightarrow>
          (Inr (JObj [(''success'', JBool False), (''error'', m), (''schedule'', JList [])]),
           logger_error [Lit ''Failed to get schedule for student '', Fmt (JInt student_id),
                         Lit '': '', Fmt m] w')
      | (Inl AttributeError, w') \<Rightarrow> (Inl AttributeError, w'))"

text \<open>\<^verbatim>\<open>verify_token\<close>, lines 256 to 274, and \<^verbatim>\<open>refresh_token\<close>, lines 276 to 295
  (\<^verbatim>\<open>Optional[str]\<close>: the value under \<^verbatim>\<open>'token'\<close>, or \<^verbatim>\<open>None\<close>).\<close>

definition verify_token ::
  "client \<Rightarrow> network \<Rightarrow> int \<Rightarrow> world \<Rightarrow> string \<Rightarrow> (exn + bool) \<times> world" where
  "verify_token self net now w token =
     (case make_request self net now w ''GET'' ''/auth/me'' None (Some token) None of
        (Inr resp, w') \<Rightarrow> (Inr True, w')
      | (Inl (SystemeCalculAPIError m sc rd), w') \<Rightarrow> (Inr False, w')
      | (Inl AttributeError, w') \<Rightarrow> (Inl AttributeError, w'))"

definition refresh_token ::
  "client \<Rightarrow> network \<Rightarrow> int \<Rightarrow> world \<Rightarrow> string \<Rightarrow> (exn + jvalue) \<times> world" where
  "refresh_token self net now w token =
     (case make_request self net now w ''POST'' ''/auth/refresh'' None (Some token) None of
        (Inr (JObj d), w') \<Rightarrow> (Inr (dict_get d ''token'' JNull), w')
      | (Inr _, w') \<Rightarrow> (Inl AttributeError, w')
      | (Inl (SystemeCalculAPIError m sc rd), w') \<Rightarrow>
          (Inr JNull, logger_error [Lit ''Failed to refresh token: '', Fmt m] w')
      | (Inl AttributeError, w') \<Rightarrow> (Inl AttributeError, w'))"

subsection \<open>Concrete inputs\<close>

text \<open>A client with both settings, an empty world, and remote sides that answer every
  request the same way; the theorems below are run on them.\<close>

definition demo_client :: client where
  "demo_client =
     \<lparr>base_url = Some ''https://api.example.com/'', api_key = Some ''app-key'',
      client_timeout = 30\<rparr>"

definition fresh_world :: world where
  "fresh_world = \<lparr>cache = Map.empty, calls = [], logs = []\<rparr>"

definition always :: "outcome \<Rightarrow> network" where
  "always out = (\<lambda>now req. out)"

definition quoted :: "string \<Rightarrow> string" where
  "quoted s = CHR 0x22 # s @ [CHR 0x22]"

text \<open>HTTP 401 with the body \<^verbatim>\<open>{"error": "invalid credentials"}\<close>.\<close>

definition invalid_credentials :: response where
  "invalid_credentials =
     \<lparr>status_code = 401,
      resp_text = ''{'' @ quoted ''error'' @ '': '' @ quoted ''invalid credentials'' @ ''}'',
      json_result = Some (JObj [(''error'', JStr ''invalid credentials'')])\<rparr>"

definition no_url_client :: client where
  "no_url_client = \<lparr>base_url = None, api_key = Some ''app-key'', client_timeout = 30\<rparr>"

text \<open>HTTP 200 with the body \<^verbatim>\<open>{"token": "abc"}\<close>, with \<^verbatim>\<open>{}\<close> and with
  \<^verbatim>\<open>{"id": n}\<close>; further down, HTTP 200 with the JSON list \<^verbatim>\<open>[]\<close>.\<close>

definition token_only :: response where
  "token_only =
     \<lparr>status_code = 200,
      resp_text = ''{'' @ quoted ''token'' @ '': '' @ quoted ''abc'' @ ''}'',
      json_result = Some (JObj [(''token'', JStr ''abc'')])\<rparr>"

definition empty_profile :: response where
  "empty_profile = \<lparr>status_code = 200, resp_text = ''{}'', json_result = Some (JObj [])\<rparr>"

definition profile_of :: "int \<Rightarrow> response" where
  "profile_of n =
     \<lparr>status_code = 200,
      resp_text = ''{'' @ quoted ''id'' @ '': '' @ str_int n @ ''}'',
      json_result = Some (JObj [(''id'', JInt n)])\<rparr>"

text \<open>HTTP 500 with the body \<^verbatim>\<open>{"error": ""}\<close>, HTTP 304 (which has no body, so
  \<^verbatim>\<open>response.text\<close> is empty and \<^verbatim>\<open>response.json()\<close> raises), HTTP 500 with the JSON
  list \<^verbatim>\<open>[]\<close> and HTTP 502 with the JSON string \<^verbatim>\<open>"Bad Gateway"\<close>.\<close>

definition empty_error :: response where
  "empty_error =
     \<lparr>status_code = 500,
      resp_text = ''{'' @ quoted ''error'' @ '': '' @ quoted [] @ ''}'',
      json_result = Some (JObj [(''error'', JStr [])])\<rparr>"

definition not_modified :: response where
  "not_modified = \<lparr>status_code = 304, resp_text = [], json_result = None\<rparr>"

definition list_success :: response where
  "list_success = \<lparr>status_code = 200, resp_text = ''[]'', json_result = Some (JList [])\<rparr>"

definition list_error :: response where
  "list_error = \<lparr>status_code = 500, resp_text = ''[]'', json_result = Some (JList [])\<rparr>"

definition string_error :: response where
  "string_error =
     \<lparr>status_code = 502, resp_text = quoted ''Bad Gateway'',
      json_result = Some (JStr ''Bad Gateway'')\<rparr>"

text \<open>A world whose cache holds a profile for the token \<^verbatim>\<open>tok\<close> until the clock reads
  300.\<close>

definition cached_world :: world where
  "cached_world =
     \<lparr>cache = [cache_key ''tok'' \<mapsto> (JObj [(''id'', JInt 1)], 300)], calls = [], logs = []\<rparr>"

section \<open>Properties\<close>

subsection \<open>Stripping slashes\<close>

lemma configured_iff: "configured x \<longleftrightarrow> (\<exists>s. x = Some s \<and> s \<noteq> [])"
  by (cases x) auto

lemma lstrip_decomp: "\<exists>n. s = replicate n CHR ''/'' @ lstrip s ''/''"
proof -
  let ?lead = "takeWhile (\<lambda>c. c \<in> set ''/'') s"
  have "?lead = replicate (length ?lead) CHR ''/''"
    by (induction s) auto
  then have "s = replicate (length ?lead) CHR ''/'' @ lstrip s ''/''"
    unfolding lstrip_def by (metis takeWhile_dropWhile_id)
  then show ?thesis ..
qed

lemma lstrip_no_prefix: "\<not> prefix ''/'' (lstrip s ''/'')"
  unfolding lstrip_def
  by (induction s) (auto simp: prefix_def)

lemma rstrip_rev: "rstrip s cs = rev (lstrip (rev s) cs)"
  by (simp add: rstrip_def lstrip_def)

lemma rstrip_decomp: "\<exists>m. s = rstrip s ''/'' @ replicate m CHR ''/''"
proof -
  obtain n where "rev s = replicate n CHR ''/'' @ lstrip (rev s) ''/''"
    using lstrip_decomp by blast
  then have "rev (rev s) = rev (replicate n CHR ''/'' @ lstrip (rev s) ''/'')"
    by simp
  then have "s = rstrip s ''/'' @ replicate n CHR ''/''"
    by (simp add: rstrip_rev)
  then show ?thesis ..
qed

lemma rstrip_no_suffix: "\<not> suffix ''/'' (rstrip s ''/'')"
  using lstrip_no_prefix [of "rev s"]
  by (simp add: rstrip_rev suffix_to_prefix)

subsection \<open>The target URL\<close>

text \<open>
  Claim C4. With a base URL configured, \<open>make_request\<close> hands exactly one request to the
  transport, and its URL is \<open>b @ ''/'' @ e\<close>, where \<open>b\<close> is the base URL without its
  trailing slashes, however many there are, and \<open>e\<close> is the endpoint without its leading
  slashes: \<open>b\<close> does not end with a slash and \<open>e\<close> does not start with one, so exactly
  one slash stands at the joint.
\<close>

theorem make_request_url:
  assumes "base_url self = Some base" and "base \<noteq> []"
  shows "\<exists>req b e m n.
           calls (snd (make_request self net now w meth endpoint data token prms)) = calls w @ [req]
         \<and> url req = b @ ''/'' @ e
         \<and> base = b @ replicate m CHR ''/''
         \<and> endpoint = replicate n CHR ''/'' @ e
         \<and> \<not> suffix ''/'' b \<and> \<not> prefix ''/'' e"
proof -
  obtain m where m: "base = rstrip base ''/'' @ replicate m CHR ''/''"
    using rstrip_decomp by blast
  obtain n where n: "endpoint = replicate n CHR ''/'' @ lstrip endpoint ''/''"
    using lstrip_decomp by blast
  let ?u = "rstrip base ''/'' @ ''/'' @ lstrip endpoint ''/''"
  have "\<exists>req. calls (snd (make_request self net now w meth endpoint data token prms)) = calls w @ [req]
          \<and> url req = ?u"
    using assms
    by (simp add: make_request_def build_request_def Let_def split: outcome.split jvalue.split)
  with m n rstrip_no_suffix [of base] lstrip_no_prefix [of endpoint] show ?thesis
    by blast
qed

theorem make_request_url_witness:
  "base_url demo_client = Some ''https://api.example.com/'' \<and> ''https://api.example.com/'' \<noteq> [] \<and>
   (\<exists>req b e m n.
      calls (snd (make_request demo_client (always Raises_Timeout) 0 fresh_world
                    ''GET'' ''/auth/me'' None None None)) = calls fresh_world @ [req]
    \<and> url req = b @ ''/'' @ e
    \<and> ''https://api.example.com/'' = b @ replicate m CHR ''/''
    \<and> ''/auth/me'' = replicate n CHR ''/'' @ e
    \<and> \<not> suffix ''/'' b \<and> \<not> prefix ''/'' e)"
proof -
  have b: "base_url demo_client = Some ''https://api.example.com/''"
    by (simp add: demo_client_def)
  have ne: "''https://api.example.com/'' \<noteq> []"
    by simp
  from make_request_url [OF b ne, of "always Raises_Timeout" 0 fresh_world "''GET''" "''/auth/me''" None None None]
  show ?thesis using b ne by blast
qed

text \<open>The example of the specification: base \<^verbatim>\<open>"https://api.example.com/"\<close> and path
  \<^verbatim>\<open>"/auth/me"\<close>.\<close>

lemma make_request_url_example:
  "map url (calls (snd (make_request demo_client (always Raises_Timeout) 0 fresh_world
                          ''GET'' ''/auth/me'' None None None)))
     = [''https://api.example.com/auth/me'']"
  by (simp add: make_request_def build_request_def demo_client_def fresh_world_def always_def
        Let_def rstrip_def lstrip_def)

subsection \<open>Authentication\<close>

text \<open>
  Claim C6. Without an API key (the setting absent or empty), \<open>authenticate_student\<close>
  returns the dict \<^verbatim>\<open>{'success': False, 'error': 'API key not configured'}\<close> for every
  email and password, and the world is the one it started from: no request was handed to
  the transport.
\<close>

theorem authenticate_student_no_api_key:
  assumes "\<not> configured (api_key self)"
  shows "authenticate_student self net now w email password =
           (Inr (JObj [(''success'', JBool False), (''error'', JStr ''API key not configured'')]), w)
         \<and> calls (snd (authenticate_student self net now w email password)) = calls w"
  using assms by (simp add: authenticate_student_def)

theorem authenticate_student_no_api_key_witness:
  "\<not> configured (api_key (demo_client\<lparr>api_key := None\<rparr>)) \<and>
   authenticate_student (demo_client\<lparr>api_key := None\<rparr>) (always Raises_Timeout) 0 fresh_world
       ''a@b.com'' ''pw'' =
     (Inr (JObj [(''success'', JBool False), (''error'', JStr ''API key not configured'')]), fresh_world)
   \<and> calls (snd (authenticate_student (demo_client\<lparr>api_key := None\<rparr>) (always Raises_Timeout) 0
                   fresh_world ''a@b.com'' ''pw'')) = []"
proof -
  have h: "\<not> configured (api_key (demo_client\<lparr>api_key := None\<rparr>))"
    by simp
  from authenticate_student_no_api_key [OF h, of "always Raises_Timeout" 0 fresh_world "''a@b.com''" "''pw''"]
  show ?thesis using h by (simp add: fresh_world_def)
qed

subsection \<open>What the transport step returns\<close>

lemma make_request_unconfigured:
  "\<not> configured (base_url self) \<Longrightarrow>
   make_request self net now w meth endpoint data token prms =
     (Inl (SystemeCalculAPIError (JStr ''API URL not configured'') None None), w)"
  by (simp add: make_request_def)

lemma make_request_returns:
  assumes "configured (base_url self)"
    and "net now (build_request self meth endpoint data token prms) = Returns resp"
  shows "make_request self net now w meth endpoint data token prms =
           (if ok resp then Inr (parsed_body resp)
            else case parsed_body resp of
                   JObj d \<Rightarrow> Inl (SystemeCalculAPIError
                                    (dict_get d ''error'' (JStr (''HTTP '' @ str_int (status_code resp))))
                                    (Some (status_code resp)) (Some (parsed_body resp)))
                 | _ \<Rightarrow> Inl AttributeError,
            w\<lparr>calls := calls w @ [build_request self meth endpoint data token prms]\<rparr>)"
  using assms
  by (simp add: make_request_def Let_def split: jvalue.split)

lemma make_request_cache [simp]:
  "cache (snd (make_request self net now w meth endpoint data token prms)) = cache w"
  by (simp add: make_request_def Let_def split: outcome.split jvalue.split)

lemma make_request_success_calls:
  "fst (make_request self net now w meth endpoint data token prms) = Inr p \<Longrightarrow>
   calls (snd (make_request self net now w meth endpoint data token prms)) =
     calls w @ [build_request self meth endpoint data token prms]"
  by (simp add: make_request_def Let_def split: if_splits outcome.splits jvalue.splits)

text \<open>
  Claim C3, as the code has it. For a response that the transport returns: when
  \<^verbatim>\<open>response.ok\<close> holds (the status is not in 400 to 599, which every 2xx status
  satisfies) \<open>make_request\<close> returns the parsed body as it is. Otherwise, when the parsed
  body is a dict (a JSON object, or the \<^verbatim>\<open>{'raw': text}\<close> of a body that is not JSON), it
  raises \<^verbatim>\<open>SystemeCalculAPIError\<close> with the status code and the parsed body, and with the
  message found under \<^verbatim>\<open>'error'\<close> whenever that key is present, whatever its value, and
  \<^verbatim>\<open>'HTTP <status>'\<close> only when the key is absent. In particular a 401 with the body
  \<^verbatim>\<open>{"error": "invalid credentials"}\<close> makes \<open>authenticate_student\<close> return
  \<^verbatim>\<open>{'success': False, 'error': 'invalid credentials'}\<close>.
\<close>

theorem make_request_classifies:
  assumes "configured (base_url self)"
    and "net now (build_request self meth endpoint data token prms) = Returns resp"
  shows "(ok resp \<longrightarrow>
            fst (make_request self net now w meth endpoint data token prms) = Inr (parsed_body resp))
       \<and> (200 \<le> status_code resp \<and> status_code resp < 300 \<longrightarrow> ok resp)
       \<and> (\<not> ok resp \<longrightarrow> (\<forall>d. parsed_body resp = JObj d \<longrightarrow>
            fst (make_request self net now w meth endpoint data token prms) =
              Inl (SystemeCalculAPIError
                     (case map_of d ''error'' of
                        Some v \<Rightarrow> v
                      | None \<Rightarrow> JStr (''HTTP '' @ str_int (status_code resp)))
                     (Some (status_code resp)) (Some (JObj d)))))
       \<and> (configured (api_key self) \<and> meth = ''POST'' \<and> endpoint = ''/auth/external-login''
            \<and> data = Some (login_data self email password) \<and> token = None \<and> prms = None
            \<and> status_code resp = 401
            \<and> json_result resp = Some (JObj [(''error'', JStr ''invalid credentials'')]) \<longrightarrow>
          fst (authenticate_student self net now w email password) =
            Inr (JObj [(''success'', JBool False), (''error'', JStr ''invalid credentials'')]))"
  using assms make_request_returns [where self=self and net=net and now=now and w=w and resp=resp
        and meth=meth and endpoint=endpoint and data=data and token=token and prms=prms]
  by (auto simp: ok_def dict_get_def authenticate_student_def parsed_body_def split: option.splits)

text \<open>The claim as the specification words it fails twice: an empty (falsy) string under
  \<^verbatim>\<open>'error'\<close> is the message, not \<^verbatim>\<open>'HTTP 500'\<close>; and a 304, which is not a 2xx status,
  is returned as a success, with the envelope \<^verbatim>\<open>{'raw': ''}\<close> of its empty body.\<close>

theorem make_request_falsy_error_counterexample:
  "\<not> truthy (JStr []) \<and>
   fst (make_request demo_client (always (Returns empty_error)) 0 fresh_world
          ''GET'' ''/auth/me'' None None None) =
     Inl (SystemeCalculAPIError (JStr []) (Some 500) (Some (JObj [(''error'', JStr [])]))) \<and>
   fst (make_request demo_client (always (Returns empty_error)) 0 fresh_world
          ''GET'' ''/auth/me'' None None None) \<noteq>
     Inl (SystemeCalculAPIError (JStr ''HTTP 500'') (Some 500) (Some (JObj [(''error'', JStr [])]))) \<and>
   \<not> (200 \<le> status_code not_modified \<and> status_code not_modified < 300) \<and>
   fst (make_request demo_client (always (Returns not_modified)) 0 fresh_world
          ''GET'' ''/auth/me'' None None None) = Inr (JObj [(''raw'', JStr [])])"
  by (simp add: make_request_def demo_client_def always_def empty_error_def not_modified_def
        ok_def parsed_body_def dict_get_def Let_def)

theorem make_request_classifies_witness:
  "configured (base_url demo_client) \<and>
   always (Returns invalid_credentials) 0
     (build_request demo_client ''POST'' ''/auth/external-login''
        (Some (login_data demo_client ''a@b.com'' ''pw'')) None None) = Returns invalid_credentials \<and>
   \<not> ok invalid_credentials \<and>
   fst (make_request demo_client (always (Returns invalid_credentials)) 0 fresh_world
          ''POST'' ''/auth/external-login'' (Some (login_data demo_client ''a@b.com'' ''pw'')) None None) =
     Inl (SystemeCalculAPIError (JStr ''invalid credentials'') (Some 401)
            (Some (JObj [(''error'', JStr ''invalid credentials'')]))) \<and>
   fst (authenticate_student demo_client (always (Returns invalid_credentials)) 0 fresh_world
          ''a@b.com'' ''pw'') =
     Inr (JObj [(''success'', JBool False), (''error'', JStr ''invalid credentials'')])"
proof -
  have b: "configured (base_url demo_client)"
    by (simp add: demo_client_def)
  have n: "always (Returns invalid_credentials) 0
     (build_request demo_client ''POST'' ''/auth/external-login''
        (Some (login_data demo_client ''a@b.com'' ''pw'')) None None) = Returns invalid_credentials"
    by (simp add: always_def)
  have k: "configured (api_key demo_client)"
    by (simp add: demo_client_def)
  have nok: "\<not> ok invalid_credentials"
    by (simp add: ok_def invalid_credentials_def)
  have pb: "parsed_body invalid_credentials = JObj [(''error'', JStr ''invalid credentials'')]"
    by (simp add: parsed_body_def invalid_credentials_def)
  have st: "status_code invalid_credentials = 401"
       "json_result invalid_credentials = Some (JObj [(''error'', JStr ''invalid credentials'')])"
    by (simp_all add: invalid_credentials_def)
  from make_request_classifies [where self=demo_client and net="always (Returns invalid_credentials)"
        and now=0 and resp=invalid_credentials and meth="''POST''" and endpoint="''/auth/external-login''"
        and data="Some (login_data demo_client ''a@b.com'' ''pw'')" and token=None and prms=None
        and w=fresh_world and email="''a@b.com''" and password="''pw''", OF b n] nok pb k st
  show ?thesis using b n by simp
qed

subsection \<open>The result of authentication\<close>

text \<open>
  When the API key is configured and the transport step returns a dict \<open>d\<close>,
  \<open>authenticate_student\<close> returns \<^verbatim>\<open>success\<close> true with \<^verbatim>\<open>student\<close> and \<^verbatim>\<open>token\<close>
  taken from \<open>d\<close> (\<^verbatim>\<open>None\<close> when absent) and \<^verbatim>\<open>expires_in\<close> taken from
  \<^verbatim>\<open>expiresIn\<close>, which is \<^verbatim>\<open>'24h'\<close> exactly when \<open>d\<close> lacks that key. This is
  for a dict only: what the transport step returns on a 2xx answer need not be one (see
  the last subsection).
\<close>

lemma authenticate_student_dict_response:
  assumes "configured (api_key self)"
    and "fst (make_request self net now w ''POST'' ''/auth/external-login''
                (Some (login_data self email password)) None None) = Inr (JObj d)"
  shows "authenticate_student self net now w email password =
           (Inr (JObj [(''success'', JBool True),
                       (''student'', case map_of d ''student'' of Some v \<Rightarrow> v | None \<Rightarrow> JNull),
                       (''token'', case map_of d ''token'' of Some v \<Rightarrow> v | None \<Rightarrow> JNull),
                       (''expires_in'', case map_of d ''expiresIn'' of Some v \<Rightarrow> v | None \<Rightarrow> JStr ''24h'')]),
            snd (make_request self net now w ''POST'' ''/auth/external-login''
                   (Some (login_data self email password)) None None))"
  using assms
  by (cases "make_request self net now w ''POST'' ''/auth/external-login''
                (Some (login_data self email password)) None None")
     (simp add: authenticate_student_def dict_get_def)

lemma make_request_token_only:
  "fst (make_request demo_client (always (Returns token_only)) 0 fresh_world ''POST'' ''/auth/external-login''
                (Some (login_data demo_client ''a@b.com'' ''pw'')) None None) = Inr (JObj [(''token'', JStr ''abc'')])"
  by (simp add: make_request_def demo_client_def always_def token_only_def ok_def parsed_body_def Let_def)

lemma authenticate_student_dict_response_example:
  "configured (api_key demo_client) \<and>
   fst (make_request demo_client (always (Returns token_only)) 0 fresh_world ''POST'' ''/auth/external-login''
                (Some (login_data demo_client ''a@b.com'' ''pw'')) None None) = Inr (JObj [(''token'', JStr ''abc'')]) \<and>
   fst (authenticate_student demo_client (always (Returns token_only)) 0 fresh_world ''a@b.com'' ''pw'') =
     Inr (JObj [(''success'', JBool True), (''student'', JNull), (''token'', JStr ''abc''),
                (''expires_in'', JStr ''24h'')])"
proof -
  have k: "configured (api_key demo_client)"
    by (simp add: demo_client_def)
  note r = make_request_token_only
  from authenticate_student_dict_response [OF k r] show ?thesis
    using k r by simp
qed

text \<open>
  Claim C9. Every value \<open>authenticate_student\<close> returns is a dict of one of two shapes:
  \<^verbatim>\<open>success\<close> true with exactly \<^verbatim>\<open>student\<close>, \<^verbatim>\<open>token\<close> and \<^verbatim>\<open>expires_in\<close>, or
  \<^verbatim>\<open>success\<close> false with exactly \<^verbatim>\<open>error\<close>; no result has the error key beside a
  success field.
\<close>

theorem authenticate_student_result_shape:
  assumes "fst (authenticate_student self net now w email password) = Inr r"
  shows "(\<exists>st tk ex. r = JObj [(''success'', JBool True), (''student'', st), (''token'', tk),
                                (''expires_in'', ex)])
       \<or> (\<exists>m. r = JObj [(''success'', JBool False), (''error'', m)])"
  using assms
  by (auto simp: authenticate_student_def split: if_splits prod.splits sum.splits jvalue.splits exn.splits)

theorem authenticate_student_result_shape_witness:
  "fst (authenticate_student demo_client (always (Returns token_only)) 0 fresh_world
          ''a@b.com'' ''pw'') =
     Inr (JObj [(''success'', JBool True), (''student'', JNull), (''token'', JStr ''abc''),
                (''expires_in'', JStr ''24h'')]) \<and>
   ((\<exists>st tk ex. JObj [(''success'', JBool True), (''student'', JNull), (''token'', JStr ''abc''),
                       (''expires_in'', JStr ''24h'')] =
        JObj [(''success'', JBool True), (''student'', st), (''token'', tk), (''expires_in'', ex)])
    \<or> (\<exists>m. JObj [(''success'', JBool True), (''student'', JNull), (''token'', JStr ''abc''),
                   (''expires_in'', JStr ''24h'')] =
        JObj [(''success'', JBool False), (''error'', m)]))"
proof -
  have r: "fst (authenticate_student demo_client (always (Returns token_only)) 0 fresh_world
                  ''a@b.com'' ''pw'') =
             Inr (JObj [(''success'', JBool True), (''student'', JNull), (''token'', JStr ''abc''),
                        (''expires_in'', JStr ''24h'')])"
    by (simp add: authenticate_student_def make_request_def demo_client_def always_def
          token_only_def ok_def parsed_body_def dict_get_def Let_def)
  from authenticate_student_result_shape [OF r] show ?thesis
    using r by simp
qed

subsection \<open>Errors of the transport step at the boundary of the operations\<close>

lemma authenticate_student_catches:
  assumes "configured (api_key self)"
    and "fst (make_request self net now w ''POST'' ''/auth/external-login''
                (Some (login_data self email password)) None None) = Inl (SystemeCalculAPIError m sc rd)"
  shows "authenticate_student self net now w email password =
           (Inr (JObj [(''success'', JBool False), (''error'', m)]),
            logger_error [Lit ''Authentication failed for '', Fmt (JStr email), Lit '': '', Fmt m]
              (snd (make_request self net now w ''POST'' ''/auth/external-login''
                      (Some (login_data self email password)) None None)))"
  using assms
  by (cases "make_request self net now w ''POST'' ''/auth/external-login''
                (Some (login_data self email password)) None None")
     (simp add: authenticate_student_def)

lemma get_student_profile_catches:
  assumes "\<not> truthy (cache_get (cache w) now (cache_key token))"
    and "fst (make_request self net now w ''GET'' ''/students/me/profile'' None (Some token) None)
           = Inl (SystemeCalculAPIError m sc rd)"
  shows "get_student_profile self net now w token =
           (Inr (JObj [(''success'', JBool False), (''error'', m)]),
            logger_error [Lit ''Failed to get student profile: '', Fmt m]
              (snd (make_request self net now w ''GET'' ''/students/me/profile'' None (Some token) None)))"
  using assms
  by (cases "make_request self net now w ''GET'' ''/students/me/profile'' None (Some token) None")
     (simp add: get_student_profile_def)

lemma get_student_formations_catches:
  assumes "fst (make_request self net now w ''GET''
                  (''/students/'' @ str_int student_id @ ''/formations'') None (Some token) None)
             = Inl (SystemeCalculAPIError m sc rd)"
  shows "get_student_formations self net now w student_id token =
           (Inr (JObj [(''success'', JBool False), (''error'', m), (''formations'', JList [])]),
            logger_error [Lit ''Failed to get formations for student '', Fmt (JInt student_id),
                          Lit '': '', Fmt m]
              (snd (make_request self net now w ''GET''
                      (''/students/'' @ str_int student_id @ ''/formations'') None (Some token) None)))"
  using assms
  by (cases "make_request self net now w ''GET''
                  (''/students/'' @ str_int student_id @ ''/formations'') None (Some token) None")
     (simp add: get_student_formations_def)

lemma get_student_schedule_catches:
  assumes "fst (make_request self net now w ''GET''
                  (''/students/'' @ str_int student_id @ ''/schedule'') None (Some token) None)
             = Inl (SystemeCalculAPIError m sc rd)"
  shows "get_student_schedule self net now w student_id token =
           (Inr (JObj [(''success'', JBool False), (''error'', m), (''schedule'', JList [])]),
            logger_error [Lit ''Failed to get schedule for student '', Fmt (JInt student_id),
                          Lit '': '', Fmt m]
              (snd (make_request self net now w ''GET''
                      (''/students/'' @ str_int student_id @ ''/schedule'') None (Some token) None)))"
  using assms
  by (cases "make_request self net now w ''GET''
                  (''/students/'' @ str_int student_id @ ''/schedule'') None (Some token) None")
     (simp add: get_student_schedule_def)

lemma verify_token_catches:
  assumes "fst (make_request self net now w ''GET'' ''/auth/me'' None (Some token) None)
             = Inl (SystemeCalculAPIError m sc rd)"
  shows "verify_token self net now w token =
           (Inr False, snd (make_request self net now w ''GET'' ''/auth/me'' None (Some token) None))"
  using assms
  by (cases "make_request self net now w ''GET'' ''/auth/me'' None (Some token) None")
     (simp add: verify_token_def)

lemma refresh_token_catches:
  assumes "fst (make_request self net now w ''POST'' ''/auth/refresh'' None (Some token) None)
             = Inl (SystemeCalculAPIError m sc rd)"
  shows "refresh_token self net now w token =
           (Inr JNull,
            logger_error [Lit ''Failed to refresh token: '', Fmt m]
              (snd (make_request self net now w ''POST'' ''/auth/refresh'' None (Some token) None)))"
  using assms
  by (cases "make_request self net now w ''POST'' ''/auth/refresh'' None (Some token) None")
     (simp add: refresh_token_def)

lemma never_raise_api_error:
  "fst (authenticate_student self net now w email password) \<noteq> Inl (SystemeCalculAPIError m sc rd)"
  "fst (get_student_profile self net now w token) \<noteq> Inl (SystemeCalculAPIError m sc rd)"
  "fst (get_student_formations self net now w student_id token) \<noteq> Inl (SystemeCalculAPIError m sc rd)"
  "fst (get_student_schedule self net now w student_id token) \<noteq> Inl (SystemeCalculAPIError m sc rd)"
  "fst (verify_token self net now w token) \<noteq> Inl (SystemeCalculAPIError m sc rd)"
  "fst (refresh_token self net now w token) \<noteq> Inl (SystemeCalculAPIError m sc rd)"
  by (auto simp: authenticate_student_def get_student_profile_def get_student_formations_def
        get_student_schedule_def verify_token_def refresh_token_def Let_def
      split: prod.splits sum.splits exn.splits jvalue.splits)

text \<open>
  Claim C1, as the code has it. Every \<^verbatim>\<open>SystemeCalculAPIError\<close> that the transport step
  raises is caught by each of the six operations and converted: to the dict with
  \<^verbatim>\<open>success\<close> false and the message under \<^verbatim>\<open>error\<close> (with the empty \<^verbatim>\<open>formations\<close>
  or \<^verbatim>\<open>schedule\<close> list for those two), to \<^verbatim>\<open>False\<close> by \<open>verify_token\<close> and to
  \<^verbatim>\<open>None\<close> by \<open>refresh_token\<close>. The error for a missing base URL is one of them: it is
  a \<^verbatim>\<open>SystemeCalculAPIError\<close> too, so \<open>verify_token\<close> and \<open>refresh_token\<close> return
  \<^verbatim>\<open>False\<close> and \<^verbatim>\<open>None\<close> for it. No operation ever raises a
  \<^verbatim>\<open>SystemeCalculAPIError\<close>.
\<close>

theorem api_errors_are_converted:
  "(configured (api_key self) \<and>
      fst (make_request self net now w ''POST'' ''/auth/external-login''
             (Some (login_data self email password)) None None) = Inl (SystemeCalculAPIError m sc rd) \<longrightarrow>
    fst (authenticate_student self net now w email password) =
      Inr (JObj [(''success'', JBool False), (''error'', m)]))
 \<and> (\<not> truthy (cache_get (cache w) now (cache_key token)) \<and>
      fst (make_request self net now w ''GET'' ''/students/me/profile'' None (Some token) None)
        = Inl (SystemeCalculAPIError m sc rd) \<longrightarrow>
    fst (get_student_profile self net now w token) =
      Inr (JObj [(''success'', JBool False), (''error'', m)]))
 \<and> (fst (make_request self net now w ''GET''
             (''/students/'' @ str_int student_id @ ''/formations'') None (Some token) None)
        = Inl (SystemeCalculAPIError m sc rd) \<longrightarrow>
    fst (get_student_formations self net now w student_id token) =
      Inr (JObj [(''success'', JBool False), (''error'', m), (''formations'', JList [])]))
 \<and> (fst (make_request self net now w ''GET''
             (''/students/'' @ str_int student_id @ ''/schedule'') None (Some token) None)
        = Inl (SystemeCalculAPIError m sc rd) \<longrightarrow>
    fst (get_student_schedule self net now w student_id token) =
      Inr (JObj [(''success'', JBool False), (''error'', m), (''schedule'', JList [])]))
 \<and> (fst (make_request self net now w ''GET'' ''/auth/me'' None (Some token) None)
        = Inl (SystemeCalculAPIError m sc rd) \<longrightarrow>
    fst (verify_token self net now w token) = Inr False)
 \<and> (fst (make_request self net now w ''POST'' ''/auth/refresh'' None (Some token) None)
        = Inl (SystemeCalculAPIError m sc rd) \<longrightarrow>
    fst (refresh_token self net now w token) = Inr JNull)
 \<and> (\<not> configured (base_url self) \<longrightarrow>
      fst (make_request self net now w meth endpoint data tok prms) =
        Inl (SystemeCalculAPIError (JStr ''API URL not configured'') None None)
    \<and> fst (verify_token self net now w token) = Inr False
    \<and> fst (refresh_token self net now w token) = Inr JNull)
 \<and> fst (authenticate_student self net now w email password) \<noteq> Inl (SystemeCalculAPIError m' sc' rd')
 \<and> fst (get_student_profile self net now w token) \<noteq> Inl (SystemeCalculAPIError m' sc' rd')
 \<and> fst (get_student_formations self net now w student_id token) \<noteq> Inl (SystemeCalculAPIError m' sc' rd')
 \<and> fst (get_student_schedule self net now w student_id token) \<noteq> Inl (SystemeCalculAPIError m' sc' rd')
 \<and> fst (verify_token self net now w token) \<noteq> Inl (SystemeCalculAPIError m' sc' rd')
 \<and> fst (refresh_token self net now w token) \<noteq> Inl (SystemeCalculAPIError m' sc' rd')"
  by (simp add: authenticate_student_catches get_student_profile_catches
        get_student_formations_catches get_student_schedule_catches verify_token_catches
        refresh_token_catches make_request_unconfigured never_raise_api_error)

text \<open>Against the claim as the specification words it: without a base URL nothing
  propagates out of \<open>verify_token\<close> and \<open>refresh_token\<close>; they return.\<close>

theorem verify_refresh_no_base_url_counterexample:
  "\<not> configured (base_url no_url_client) \<and>
   fst (verify_token no_url_client (always Raises_Timeout) 0 fresh_world ''tok'') = Inr False \<and>
   fst (refresh_token no_url_client (always Raises_Timeout) 0 fresh_world ''tok'') = Inr JNull"
  by (simp add: verify_token_def refresh_token_def make_request_def no_url_client_def)

theorem api_errors_are_converted_witness:
  "configured (api_key no_url_client) \<and> \<not> configured (base_url no_url_client) \<and>
   \<not> truthy (cache_get (cache fresh_world) 0 (cache_key ''tok'')) \<and>
   fst (make_request no_url_client (always Raises_Timeout) 0 fresh_world ''GET'' ''/auth/me'' None
          (Some ''tok'') None) = Inl (SystemeCalculAPIError (JStr ''API URL not configured'') None None) \<and>
   fst (authenticate_student no_url_client (always Raises_Timeout) 0 fresh_world ''a@b.com'' ''pw'') =
      Inr (JObj [(''success'', JBool False), (''error'', JStr ''API URL not configured'')]) \<and>
   fst (get_student_profile no_url_client (always Raises_Timeout) 0 fresh_world ''tok'') =
      Inr (JObj [(''success'', JBool False), (''error'', JStr ''API URL not configured'')]) \<and>
   fst (get_student_formations no_url_client (always Raises_Timeout) 0 fresh_world 7 ''tok'') =
      Inr (JObj [(''success'', JBool False), (''error'', JStr ''API URL not configured''),
                 (''formations'', JList [])]) \<and>
   fst (get_student_schedule no_url_client (always Raises_Timeout) 0 fresh_world 7 ''tok'') =
      Inr (JObj [(''success'', JBool False), (''error'', JStr ''API URL not configured''),
                 (''schedule'', JList [])]) \<and>
   fst (verify_token no_url_client (always Raises_Timeout) 0 fresh_world ''tok'') = Inr False \<and>
   fst (refresh_token no_url_client (always Raises_Timeout) 0 fresh_world ''tok'') = Inr JNull"
proof -
  have k: "configured (api_key no_url_client)" and b: "\<not> configured (base_url no_url_client)"
    by (simp_all add: no_url_client_def)
  have c: "\<not> truthy (cache_get (cache fresh_world) 0 (cache_key ''tok''))"
    by (simp add: cache_get_def fresh_world_def)
  have r: "fst (make_request no_url_client (always Raises_Timeout) 0 fresh_world meth endpoint data tok prms)
             = Inl (SystemeCalculAPIError (JStr ''API URL not configured'') None None)"
    for meth endpoint data tok prms
    using b by (simp add: make_request_def)
  from api_errors_are_converted [where self=no_url_client and net="always Raises_Timeout" and now=0
        and w=fresh_world and email="''a@b.com''" and password="''pw''" and token="''tok''"
        and student_id=7 and m="JStr ''API URL not configured''" and sc=None and rd=None]
  show ?thesis using k b c r by simp
qed

subsection \<open>The profile cache\<close>

lemma get_student_profile_hit:
  "truthy (cache_get (cache w) now (cache_key token)) \<Longrightarrow>
   get_student_profile self net now w token = (Inr (cache_get (cache w) now (cache_key token)), w)"
  by (simp add: get_student_profile_def)

lemma get_student_profile_fetches:
  assumes "\<not> truthy (cache_get (cache w) now (cache_key token))"
    and "fst (make_request self net now w ''GET'' ''/students/me/profile'' None (Some token) None)
           = Inr payload"
  shows "get_student_profile self net now w token =
           (Inr payload,
            (snd (make_request self net now w ''GET'' ''/students/me/profile'' None (Some token) None))
              \<lparr>cache := cache_set (cache w) now (cache_key token) payload 300\<rparr>)"
  using assms
    make_request_cache [of self net now w "''GET''" "''/students/me/profile''" None "Some token" None]
  by (cases "make_request self net now w ''GET'' ''/students/me/profile'' None (Some token) None")
     (simp add: get_student_profile_def)

lemma cache_get_after_set:
  "now' < now + ttl \<Longrightarrow> cache_get (cache_set c now key v ttl) now' key = v"
  by (simp add: cache_get_def cache_set_def)

text \<open>
  Claim C2, as the code has it. When the cache holds, for the key of the token, an entry
  that has not expired and whose value is true in Python's sense, \<open>get_student_profile\<close>
  returns that value and leaves the world as it is: no request is issued. In particular,
  after a call that missed the cache and fetched a payload that is true in Python's sense,
  a second call with the same token less than 300 seconds later returns that payload
  whatever the remote side would answer, and the two calls together issued exactly one
  request.
\<close>

theorem get_student_profile_serves_cache:
  "(cache w (cache_key token) = Some (v, expires) \<and> now < expires \<and> truthy v \<longrightarrow>
      get_student_profile self net now w token = (Inr v, w))
 \<and> (\<not> truthy (cache_get (cache w) t1 (cache_key token)) \<and>
    fst (make_request self net t1 w ''GET'' ''/students/me/profile'' None (Some token) None) = Inr payload \<and>
    truthy payload \<and> t2 < t1 + 300 \<longrightarrow>
      fst (get_student_profile self net t1 w token) = Inr payload
    \<and> get_student_profile self net' t2 (snd (get_student_profile self net t1 w token)) token =
        (Inr payload, snd (get_student_profile self net t1 w token))
    \<and> calls (snd (get_student_profile self net' t2
                     (snd (get_student_profile self net t1 w token)) token)) =
        calls w @ [build_request self ''GET'' ''/students/me/profile'' None (Some token) None])"
proof (intro conjI impI)
  assume "cache w (cache_key token) = Some (v, expires) \<and> now < expires \<and> truthy v"
  then have "cache_get (cache w) now (cache_key token) = v" and "truthy v"
    by (simp_all add: cache_get_def)
  then show "get_student_profile self net now w token = (Inr v, w)"
    using get_student_profile_hit [of w now token self net] by simp
next
  assume h: "\<not> truthy (cache_get (cache w) t1 (cache_key token)) \<and>
    fst (make_request self net t1 w ''GET'' ''/students/me/profile'' None (Some token) None) = Inr payload \<and>
    truthy payload \<and> t2 < t1 + 300"
  let ?w1 = "snd (get_student_profile self net t1 w token)"
  from h have first: "get_student_profile self net t1 w token =
           (Inr payload,
            (snd (make_request self net t1 w ''GET'' ''/students/me/profile'' None (Some token) None))
              \<lparr>cache := cache_set (cache w) t1 (cache_key token) payload 300\<rparr>)"
    using get_student_profile_fetches by blast
  then show "fst (get_student_profile self net t1 w token) = Inr payload"
    by simp
  from first h have live: "cache_get (cache ?w1) t2 (cache_key token) = payload"
    by (simp add: cache_get_after_set)
  with h show second: "get_student_profile self net' t2 ?w1 token = (Inr payload, ?w1)"
    using get_student_profile_hit [of ?w1 t2 token self net'] by simp
  from first h have "calls ?w1 = calls w @ [build_request self ''GET'' ''/students/me/profile'' None (Some token) None]"
    by (simp add: make_request_success_calls)
  with second show "calls (snd (get_student_profile self net' t2 ?w1 token)) =
        calls w @ [build_request self ''GET'' ''/students/me/profile'' None (Some token) None]"
    by simp
qed

text \<open>The claim as the specification words it fails for a payload that is false in
  Python's sense: the profile \<^verbatim>\<open>{}\<close> is stored, the entry is live one second later, and
  the second call fetches again.\<close>

theorem empty_profile_refetched_counterexample:
  "fst (get_student_profile demo_client (always (Returns empty_profile)) 0 fresh_world ''tok'') = Inr (JObj [])
 \<and> cache (snd (get_student_profile demo_client (always (Returns empty_profile)) 0 fresh_world ''tok''))
      (cache_key ''tok'') = Some (JObj [], 300)
 \<and> (1::int) < 300
 \<and> fst (get_student_profile demo_client (always (Returns (profile_of 2))) 1
         (snd (get_student_profile demo_client (always (Returns empty_profile)) 0 fresh_world ''tok''))
         ''tok'') = Inr (JObj [(''id'', JInt 2)])
 \<and> length (calls (snd (get_student_profile demo_client (always (Returns (profile_of 2))) 1
         (snd (get_student_profile demo_client (always (Returns empty_profile)) 0 fresh_world ''tok''))
         ''tok''))) = 2"
  by (simp add: get_student_profile_def make_request_def demo_client_def fresh_world_def always_def
        empty_profile_def profile_of_def ok_def parsed_body_def cache_get_def cache_set_def
        cache_key_def Let_def)

theorem get_student_profile_serves_cache_witness:
  "cache cached_world (cache_key ''tok'') = Some (JObj [(''id'', JInt 1)], 300) \<and> (299::int) < 300 \<and>
   truthy (JObj [(''id'', JInt 1)]) \<and>
   get_student_profile demo_client (always Raises_Timeout) 299 cached_world ''tok'' =
     (Inr (JObj [(''id'', JInt 1)]), cached_world) \<and>
   \<not> truthy (cache_get (cache fresh_world) 0 (cache_key ''tok'')) \<and>
   fst (make_request demo_client (always (Returns (profile_of 1))) 0 fresh_world
          ''GET'' ''/students/me/profile'' None (Some ''tok'') None) = Inr (JObj [(''id'', JInt 1)]) \<and>
   (299::int) < 0 + 300 \<and>
   get_student_profile demo_client (always (Returns (profile_of 2))) 299
       (snd (get_student_profile demo_client (always (Returns (profile_of 1))) 0 fresh_world ''tok''))
       ''tok'' =
     (Inr (JObj [(''id'', JInt 1)]),
      snd (get_student_profile demo_client (always (Returns (profile_of 1))) 0 fresh_world ''tok'')) \<and>
   calls (snd (get_student_profile demo_client (always (Returns (profile_of 2))) 299
            (snd (get_student_profile demo_client (always (Returns (profile_of 1))) 0 fresh_world ''tok''))
            ''tok'')) =
     calls fresh_world @ [build_request demo_client ''GET'' ''/students/me/profile'' None (Some ''tok'') None]"
proof -
  have e: "cache cached_world (cache_key ''tok'') = Some (JObj [(''id'', JInt 1)], 300)"
    by (simp add: cached_world_def)
  have m: "\<not> truthy (cache_get (cache fresh_world) 0 (cache_key ''tok''))"
    by (simp add: cache_get_def fresh_world_def)
  have f: "fst (make_request demo_client (always (Returns (profile_of 1))) 0 fresh_world
                  ''GET'' ''/students/me/profile'' None (Some ''tok'') None) = Inr (JObj [(''id'', JInt 1)])"
    by (simp add: make_request_def demo_client_def always_def profile_of_def ok_def
          parsed_body_def Let_def)
  from get_student_profile_serves_cache [where w=cached_world and token="''tok''"
        and v="JObj [(''id'', JInt 1)]" and expires=300 and now=299 and self=demo_client
        and net="always Raises_Timeout"]
  have hit: "get_student_profile demo_client (always Raises_Timeout) 299 cached_world ''tok'' =
               (Inr (JObj [(''id'', JInt 1)]), cached_world)"
    using e by simp
  have a: "(299::int) < 300" and a': "(299::int) < 0 + 300" and t: "truthy (JObj [(''id'', JInt 1)])"
    by simp_all
  from get_student_profile_serves_cache [where w=fresh_world and token="''tok''"
        and payload="JObj [(''id'', JInt 1)]" and ?t1.0=0 and ?t2.0=299 and self=demo_client
        and net="always (Returns (profile_of 1))" and net'="always (Returns (profile_of 2))"]
  have again:
    "get_student_profile demo_client (always (Returns (profile_of 2))) 299
         (snd (get_student_profile demo_client (always (Returns (profile_of 1))) 0 fresh_world ''tok''))
         ''tok'' =
       (Inr (JObj [(''id'', JInt 1)]),
        snd (get_student_profile demo_client (always (Returns (profile_of 1))) 0 fresh_world ''tok''))"
    and once:
    "calls (snd (get_student_profile demo_client (always (Returns (profile_of 2))) 299
              (snd (get_student_profile demo_client (always (Returns (profile_of 1))) 0 fresh_world ''tok''))
              ''tok'')) =
       calls fresh_world @ [build_request demo_client ''GET'' ''/students/me/profile'' None (Some ''tok'') None]"
    using m f t a' by blast+
  from e a t hit m f a' again once show ?thesis
    by (intro conjI)
qed

text \<open>
  Claim C10, as the code has it. The cache key is made of the first 20 characters of the
  token only. So when two tokens agree on their first 20 characters and a call with the
  first one missed the cache and fetched a payload that is true in Python's sense, a call
  with the second token less than 300 seconds later, whatever the remote side would
  answer, returns the payload fetched for the first token and leaves the world as it is:
  the only request issued is the one that carried the first token.
\<close>

theorem get_student_profile_prefix_collision:
  assumes "take 20 token1 = take 20 token2"
    and "\<not> truthy (cache_get (cache w) t1 (cache_key token1))"
    and "fst (make_request self net t1 w ''GET'' ''/students/me/profile'' None (Some token1) None)
           = Inr payload"
    and "truthy payload"
    and "t2 < t1 + 300"
  shows "get_student_profile self net' t2 (snd (get_student_profile self net t1 w token1)) token2 =
           (Inr payload, snd (get_student_profile self net t1 w token1))
       \<and> calls (snd (get_student_profile self net t1 w token1)) =
           calls w @ [build_request self ''GET'' ''/students/me/profile'' None (Some token1) None]"
proof -
  let ?w1 = "snd (get_student_profile self net t1 w token1)"
  have key: "cache_key token2 = cache_key token1"
    using assms(1) by (simp add: cache_key_def)
  have first: "get_student_profile self net t1 w token1 =
           (Inr payload,
            (snd (make_request self net t1 w ''GET'' ''/students/me/profile'' None (Some token1) None))
              \<lparr>cache := cache_set (cache w) t1 (cache_key token1) payload 300\<rparr>)"
    using assms(2,3) by (rule get_student_profile_fetches)
  then have "cache_get (cache ?w1) t2 (cache_key token2) = payload"
    using assms(5) by (simp add: key cache_get_after_set)
  then have "get_student_profile self net' t2 ?w1 token2 = (Inr payload, ?w1)"
    using assms(4) get_student_profile_hit [of ?w1 t2 token2 self net'] by simp
  moreover have "calls ?w1 = calls w @ [build_request self ''GET'' ''/students/me/profile'' None (Some token1) None]"
    using first assms(3) by (simp add: make_request_success_calls)
  ultimately show ?thesis by simp
qed

text \<open>The claim as the specification words it fails for a payload that is false in
  Python's sense: after the profile \<^verbatim>\<open>{}\<close> was fetched with the first token, the call
  with the second token, 299 seconds later, issues a request of its own.\<close>

theorem prefix_collision_empty_profile_counterexample:
  "''abcdefghijklmnopqrst-1'' \<noteq> ''abcdefghijklmnopqrst-2''
 \<and> take 20 ''abcdefghijklmnopqrst-1'' = take 20 ''abcdefghijklmnopqrst-2''
 \<and> fst (get_student_profile demo_client (always (Returns empty_profile)) 0 fresh_world
         ''abcdefghijklmnopqrst-1'') = Inr (JObj [])
 \<and> (299::int) < 0 + 300
 \<and> fst (get_student_profile demo_client (always (Returns (profile_of 2))) 299
         (snd (get_student_profile demo_client (always (Returns empty_profile)) 0 fresh_world
                ''abcdefghijklmnopqrst-1''))
         ''abcdefghijklmnopqrst-2'') = Inr (JObj [(''id'', JInt 2)])
 \<and> length (calls (snd (get_student_profile demo_client (always (Returns (profile_of 2))) 299
         (snd (get_student_profile demo_client (always (Returns empty_profile)) 0 fresh_world
                ''abcdefghijklmnopqrst-1''))
         ''abcdefghijklmnopqrst-2''))) = 2"
  by (simp add: get_student_profile_def make_request_def demo_client_def fresh_world_def always_def
        empty_profile_def profile_of_def ok_def parsed_body_def cache_get_def cache_set_def
        cache_key_def Let_def)

theorem get_student_profile_prefix_collision_witness:
  "''abcdefghijklmnopqrst-1'' \<noteq> ''abcdefghijklmnopqrst-2'' \<and>
   take 20 ''abcdefghijklmnopqrst-1'' = take 20 ''abcdefghijklmnopqrst-2'' \<and>
   \<not> truthy (cache_get (cache fresh_world) 0 (cache_key ''abcdefghijklmnopqrst-1'')) \<and>
   fst (make_request demo_client (always (Returns (profile_of 1))) 0 fresh_world
          ''GET'' ''/students/me/profile'' None (Some ''abcdefghijklmnopqrst-1'') None)
     = Inr (JObj [(''id'', JInt 1)]) \<and>
   truthy (JObj [(''id'', JInt 1)]) \<and> (299::int) < 0 + 300 \<and>
   get_student_profile demo_client (always (Returns (profile_of 2))) 299
       (snd (get_student_profile demo_client (always (Returns (profile_of 1))) 0 fresh_world
               ''abcdefghijklmnopqrst-1''))
       ''abcdefghijklmnopqrst-2'' =
     (Inr (JObj [(''id'', JInt 1)]),
      snd (get_student_profile demo_client (always (Returns (profile_of 1))) 0 fresh_world
             ''abcdefghijklmnopqrst-1'')) \<and>
   calls (snd (get_student_profile demo_client (always (Returns (profile_of 1))) 0 fresh_world
                 ''abcdefghijklmnopqrst-1'')) =
     calls fresh_world @
       [build_request demo_client ''GET'' ''/students/me/profile'' None
          (Some ''abcdefghijklmnopqrst-1'') None]"
proof -
  have p: "take 20 ''abcdefghijklmnopqrst-1'' = take 20 ''abcdefghijklmnopqrst-2''"
    by simp
  have m: "\<not> truthy (cache_get (cache fresh_world) 0 (cache_key ''abcdefghijklmnopqrst-1''))"
    by (simp add: cache_get_def fresh_world_def)
  have f: "fst (make_request demo_client (always (Returns (profile_of 1))) 0 fresh_world
                  ''GET'' ''/students/me/profile'' None (Some ''abcdefghijklmnopqrst-1'') None)
             = Inr (JObj [(''id'', JInt 1)])"
    by (simp add: make_request_def demo_client_def always_def profile_of_def ok_def
          parsed_body_def Let_def)
  have t: "truthy (JObj [(''id'', JInt 1)])" and l: "(299::int) < 0 + 300"
    by simp_all
  from get_student_profile_prefix_collision [OF p m f t l, where net'="always (Returns (profile_of 2))"]
  show ?thesis using p m f by simp
qed

subsection \<open>A response whose body is JSON but not an object\<close>

text \<open>
  The error branch of \<open>make_request\<close> calls \<^verbatim>\<open>response_data.get\<close>, and
  \<open>authenticate_student\<close> and \<open>refresh_token\<close> call \<^verbatim>\<open>response.get\<close>, on whatever
  \<^verbatim>\<open>response.json()\<close> returned. For a list, a string, a number or \<^verbatim>\<open>null\<close> that raises
  \<^verbatim>\<open>AttributeError\<close>, which no \<^verbatim>\<open>except\<close> clause of the client catches. What does hold
  for every failure of the transport step is that the cache stays as it was.
\<close>

lemma get_student_profile_failure_keeps_cache:
  assumes "fst (make_request self net now w ''GET'' ''/students/me/profile'' None (Some token) None)
             = Inl e"
  shows "cache (snd (get_student_profile self net now w token)) = cache w"
  using assms
    make_request_cache [of self net now w "''GET''" "''/students/me/profile''" None "Some token" None]
  by (cases "make_request self net now w ''GET'' ''/students/me/profile'' None (Some token) None")
     (auto simp: get_student_profile_def logger_error_def Let_def split: exn.splits)

lemma refresh_token_success:
  assumes "fst (make_request self net now w ''POST'' ''/auth/refresh'' None (Some token) None)
             = Inr (JObj d)"
  shows "refresh_token self net now w token =
           (Inr (case map_of d ''token'' of Some v \<Rightarrow> v | None \<Rightarrow> JNull),
            snd (make_request self net now w ''POST'' ''/auth/refresh'' None (Some token) None))"
  using assms
  by (cases "make_request self net now w ''POST'' ''/auth/refresh'' None (Some token) None")
     (simp add: refresh_token_def dict_get_def)

text \<open>
  Claim C5, at a successful call the code does not answer. The API key is configured and
  the remote side answers the login request with HTTP 200 and the JSON body \<^verbatim>\<open>[]\<close>:
  the transport step succeeds and returns the list, and \<open>authenticate_student\<close> raises
  \<^verbatim>\<open>AttributeError\<close> at \<^verbatim>\<open>response.get('student')\<close> instead of returning the dict with
  \<^verbatim>\<open>success\<close> true.
\<close>

theorem authenticate_student_attribute_error:
  "configured (api_key demo_client)
 \<and> ok list_success
 \<and> fst (make_request demo_client (always (Returns list_success)) 0 fresh_world
          ''POST'' ''/auth/external-login'' (Some (login_data demo_client ''a@b.com'' ''pw''))
          None None) = Inr (JList [])
 \<and> authenticate_student demo_client (always (Returns list_success)) 0 fresh_world
       ''a@b.com'' ''pw'' =
     (Inl AttributeError,
      fresh_world\<lparr>calls := [build_request demo_client ''POST'' ''/auth/external-login''
                                 (Some (login_data demo_client ''a@b.com'' ''pw'')) None None]\<rparr>)"
  by (simp add: authenticate_student_def make_request_def demo_client_def fresh_world_def
        always_def list_success_def ok_def parsed_body_def Let_def)

text \<open>
  Claim C7, at a failing fetch the code does not convert. The remote side answers the
  profile request with HTTP 500 and the JSON body \<^verbatim>\<open>[]\<close>: \<open>get_student_profile\<close> raises
  \<^verbatim>\<open>AttributeError\<close> instead of returning the dict with \<^verbatim>\<open>success\<close> false (the cache is
  left as it was).
\<close>

theorem get_student_profile_attribute_error:
  "\<not> ok list_error
 \<and> get_student_profile demo_client (always (Returns list_error)) 0 fresh_world ''tok'' =
     (Inl AttributeError,
      fresh_world\<lparr>calls := [build_request demo_client ''GET'' ''/students/me/profile'' None (Some ''tok'') None]\<rparr>)"
  by (simp add: get_student_profile_def make_request_def demo_client_def fresh_world_def always_def
        list_error_def ok_def parsed_body_def cache_get_def cache_key_def Let_def)

text \<open>
  Claim C8, at a failing call the code does not convert. The remote side answers the
  refresh request with HTTP 502 and the JSON body \<^verbatim>\<open>"Bad Gateway"\<close>: \<open>refresh_token\<close>
  raises \<^verbatim>\<open>AttributeError\<close> instead of returning \<^verbatim>\<open>None\<close>, and nothing is logged.
\<close>

theorem refresh_token_attribute_error:
  "\<not> ok string_error
 \<and> refresh_token demo_client (always (Returns string_error)) 0 fresh_world ''tok'' =
     (Inl AttributeError,
      fresh_world\<lparr>calls := [build_request demo_client ''POST'' ''/auth/refresh'' None (Some ''tok'') None]\<rparr>)"
  by (simp add: refresh_token_def make_request_def demo_client_def fresh_world_def always_def
        string_error_def ok_def parsed_body_def Let_def)

end
